theory Spec2Isabelle
  imports Complex_Main "HOL-Library.Product_Lexorder" "HOL-Library.Multiset"
begin

section \<open>Data model of backend/server.py\<close>

text \<open>
  The service keeps one collection, \<^verbatim>\<open>game_data\<close>, of player documents. Python
  integers are unbounded, so every integer field is an \<open>int\<close>; counts of documents
  are \<open>nat\<close>. \<^verbatim>\<open>datetime.now()\<close> is an input of the handlers that stamp a time
  (the parameter \<open>now\<close>).

  The records of the JSON answers are declared first and the two request models last,
  so that an unqualified field name (\<open>max_level\<close>, \<open>total_score\<close>, ...) is the
  field of \<open>GameData\<close>; the fields of the other records are written qualified.
\<close>

type_synonym datetime = nat

text \<open>One row of the answer of \<^verbatim>\<open>get_leaderboard\<close>.\<close>

record leaderboard_row =
  rank :: nat
  player_id :: string
  max_level :: int
  total_score :: int
  items_collected :: int
  games_played :: int
  last_played :: "datetime option"

record leaderboard_response =
  leaderboard :: "leaderboard_row list"
  total_players :: nat

text \<open>The \<^verbatim>\<open>player_data\<close> part of the answer of \<^verbatim>\<open>get_player_rank\<close>.\<close>

record player_data =
  player_id :: string
  max_level :: int
  total_score :: int
  items_collected :: int
  games_played :: int

text \<open>
  \<^verbatim>\<open>get_player_rank\<close> answers \<^verbatim>\<open>{"rank": None, "message": "Player not found"}\<close> or
  a rank, the number of players and the player's data.
\<close>

datatype rank_response =
  Player_not_found
  | Ranked nat nat player_data

text \<open>
  The answer of \<^verbatim>\<open>get_game_statistics\<close>. Python's \<^verbatim>\<open>/\<close> on two integers gives the
  float nearest to the quotient; the model keeps the quotient itself, as a rational.
\<close>

record statistics =
  total_players :: nat
  total_score :: int
  total_items_collected :: int
  total_games_played :: int
  max_level_reached :: int
  average_score_per_player :: rat

text \<open>The request body of \<^verbatim>\<open>POST /api/game-session\<close> (class \<^verbatim>\<open>GameSession\<close>).\<close>

record GameSession =
  player_id :: string
  level :: int
  score :: int
  items_collected :: int
  completed :: bool
  time_played :: "int option"

text \<open>
  The request body of \<^verbatim>\<open>POST /api/game-data\<close> (class \<^verbatim>\<open>GameData\<close>). Both writers
  of the collection set these seven keys with \<^verbatim>\<open>$set\<close>, so a stored document is a
  \<open>GameData\<close> too, and the default of a \<^verbatim>\<open>.get(key, default)\<close> on a stored document
  is never taken. The \<^verbatim>\<open>_id\<close> that the store adds to a document is left out: the
  handlers only turn it into a string.
\<close>

record GameData =
  player_id :: string
  current_level :: int
  max_level :: int
  total_score :: int
  items_collected :: int
  games_played :: int
  last_played :: "datetime option"

section \<open>The collection\<close>

text \<open>
  The collection is the list of its documents in insertion order; a filter document is
  a predicate on documents. These are the driver's operations that the handlers call.
\<close>

type_synonym collection = "GameData list"

text \<open>The filter \<^verbatim>\<open>{"player_id": pid}\<close>.\<close>

definition by_player_id :: "string \<Rightarrow> GameData \<Rightarrow> bool" where
  "by_player_id pid = (\<lambda>d. player_id d = pid)"

text \<open>\<^verbatim>\<open>find_one(filter)\<close>: the first document that matches, or \<^verbatim>\<open>None\<close>.\<close>

definition find_one :: "(GameData \<Rightarrow> bool) \<Rightarrow> collection \<Rightarrow> GameData option" where
  "find_one flt docs = List.find flt docs"

text \<open>
  \<^verbatim>\<open>update_one(filter, {"$set": new}, upsert=True)\<close> where \<open>new\<close> holds all seven
  keys: the first matching document takes the values of \<open>new\<close>; when none matches,
  \<open>new\<close> is inserted.
\<close>

fun update_one :: "(GameData \<Rightarrow> bool) \<Rightarrow> GameData \<Rightarrow> collection \<Rightarrow> collection" where
  "update_one flt new [] = [new]"
| "update_one flt new (d # ds) =
     (if flt d then new # ds else d # update_one flt new ds)"

text \<open>
  \<^verbatim>\<open>delete_one(filter)\<close>: the first matching document is removed; the result is
  \<^verbatim>\<open>deleted_count\<close> and the collection left.
\<close>

fun delete_one :: "(GameData \<Rightarrow> bool) \<Rightarrow> collection \<Rightarrow> nat \<times> collection" where
  "delete_one flt [] = (0, [])"
| "delete_one flt (d # ds) =
     (if flt d then (1, ds)
      else (fst (delete_one flt ds), d # snd (delete_one flt ds)))"

text \<open>\<^verbatim>\<open>count_documents(filter)\<close>; the filter \<^verbatim>\<open>{}\<close> is \<open>\<lambda>d. True\<close>.\<close>

definition count_documents :: "(GameData \<Rightarrow> bool) \<Rightarrow> collection \<Rightarrow> nat" where
  "count_documents flt docs = length (filter flt docs)"




section \<open>The handlers\<close>

text \<open>
  Each handler wraps its body in \<^verbatim>\<open>try\<close> and answers HTTP 500 when the store raises.
  The collection of the model is a value and its operations are total, so the handlers
  have no error branch here.
\<close>

subsection \<open>get_game_data\<close>

definition get_game_data :: "string \<Rightarrow> collection \<Rightarrow> GameData" where
  "get_game_data pid docs =
     (case find_one (by_player_id pid) docs of
        None \<Rightarrow>
          \<lparr>player_id = pid, current_level = 1, max_level = 1, total_score = 0,
           items_collected = 0, games_played = 0, last_played = None\<rparr>
      | Some game_data \<Rightarrow> game_data)"

subsection \<open>save_game_data\<close>

text \<open>
  The answer of the handler (a success flag and the driver's counters) says nothing
  about the fields; the model returns the collection after the write.
\<close>

definition save_game_data :: "datetime \<Rightarrow> GameData \<Rightarrow> collection \<Rightarrow> collection" where
  "save_game_data now game_data docs =
     update_one (by_player_id (player_id game_data))
       (game_data\<lparr>last_played := Some now\<rparr>) docs"

subsection \<open>record_game_session\<close>

text \<open>The result is \<^verbatim>\<open>updated_data\<close> of the answer and the collection after the write.\<close>

definition record_game_session ::
  "datetime \<Rightarrow> GameSession \<Rightarrow> collection \<Rightarrow> GameData \<times> collection" where
  "record_game_session now session docs =
     (let current_data = find_one (by_player_id (GameSession.player_id session)) docs;
          new_data =
            (case current_data of
               None \<Rightarrow>
                 \<lparr>player_id = GameSession.player_id session,
                  current_level = (if completed session then level session else 1),
                  max_level = (if completed session then level session else 1),
                  total_score = score session,
                  items_collected = GameSession.items_collected session,
                  games_played = 1,
                  last_played = Some now\<rparr>
             | Some cur \<Rightarrow>
                 \<lparr>player_id = GameSession.player_id session,
                  current_level =
                    (if completed session then level session else current_level cur),
                  max_level =
                    (if completed session then max (level session) (max_level cur)
                     else max_level cur),
                  total_score = total_score cur + score session,
                  items_collected = items_collected cur + GameSession.items_collected session,
                  games_played = games_played cur + 1,
                  last_played = Some now\<rparr>)
      in (new_data,
          update_one (by_player_id (GameSession.player_id session)) new_data docs))"

subsection \<open>get_leaderboard\<close>



subsection \<open>get_player_rank\<close>

text \<open>
  The filter
  \<^verbatim>\<open>{"$or": [{"max_level": {"$gt": ml}}, {"max_level": ml, "total_score": {"$gt": ts}}]}\<close>.
\<close>

definition better_stats :: "int \<Rightarrow> int \<Rightarrow> GameData \<Rightarrow> bool" where
  "better_stats ml ts d \<longleftrightarrow> ml < max_level d \<or> (max_level d = ml \<and> ts < total_score d)"

definition get_player_rank :: "string \<Rightarrow> collection \<Rightarrow> rank_response" where
  "get_player_rank pid docs =
     (case find_one (by_player_id pid) docs of
        None \<Rightarrow> Player_not_found
      | Some p \<Rightarrow>
          (let better_players = count_documents (better_stats (max_level p) (total_score p)) docs;
               rank = better_players + 1;
               total_players = count_documents (\<lambda>d. True) docs
           in Ranked rank total_players
                \<lparr>player_data.player_id = pid,
                 player_data.max_level = max_level p,
                 player_data.total_score = total_score p,
                 player_data.items_collected = items_collected p,
                 player_data.games_played = games_played p\<rparr>))"

text \<open>The value under the key \<^verbatim>\<open>rank\<close> of the answer.\<close>

fun rank_of :: "rank_response \<Rightarrow> nat option" where
  "rank_of Player_not_found = None"
| "rank_of (Ranked r n pd) = Some r"

subsection \<open>get_game_statistics\<close>


subsection \<open>reset_player_data\<close>

text \<open>The result is \<^verbatim>\<open>deleted_count\<close> of the answer and the collection after the delete.\<close>

definition reset_player_data :: "string \<Rightarrow> collection \<Rightarrow> nat \<times> collection" where
  "reset_player_data pid docs = delete_one (by_player_id pid) docs"

subsection \<open>Sequences of writes\<close>

text \<open>
  The collection is written by three handlers only. A history of the service is a list
  of their requests, applied in order.
\<close>

datatype request =
  Save datetime GameData
  | Session datetime GameSession
  | Reset string

fun handle :: "request \<Rightarrow> collection \<Rightarrow> collection" where
  "handle (Save now game_data) docs = save_game_data now game_data docs"
| "handle (Session now session) docs = snd (record_game_session now session docs)"
| "handle (Reset pid) docs = snd (reset_player_data pid docs)"

definition run :: "request list \<Rightarrow> collection \<Rightarrow> collection" where
  "run reqs docs = fold handle reqs docs"

subsection \<open>The field constraints of the data model\<close>

definition field_constraints :: "GameData \<Rightarrow> bool" where
  "field_constraints d \<longleftrightarrow>
     1 \<le> current_level d \<and> 1 \<le> max_level d \<and> 0 \<le> total_score d \<and>
     0 \<le> items_collected d \<and> 0 \<le> games_played d"

definition session_constraints :: "GameSession \<Rightarrow> bool" where
  "session_constraints s \<longleftrightarrow>
     1 \<le> level s \<and> 0 \<le> score s \<and> 0 \<le> GameSession.items_collected s"

fun request_constraints :: "request \<Rightarrow> bool" where
  "request_constraints (Save now game_data) = field_constraints game_data"
| "request_constraints (Session now session) = session_constraints session"
| "request_constraints (Reset pid) = True"

subsection \<open>The order of the leaderboard\<close>


subsection \<open>A collection of four players\<close>

definition doc_bia :: GameData where
  "doc_bia = \<lparr>player_id = ''bia'', current_level = 2, max_level = 3, total_score = 40,
     items_collected = 5, games_played = 2, last_played = Some 17\<rparr>"

definition doc_caio :: GameData where
  "doc_caio = \<lparr>player_id = ''caio'', current_level = 3, max_level = 3, total_score = 90,
     items_collected = 9, games_played = 4, last_played = Some 20\<rparr>"

definition doc_duda :: GameData where
  "doc_duda = \<lparr>player_id = ''duda'', current_level = 1, max_level = 3, total_score = 90,
     items_collected = 12, games_played = 6, last_played = Some 21\<rparr>"

definition doc_edu :: GameData where
  "doc_edu = \<lparr>player_id = ''edu'', current_level = 5, max_level = 5, total_score = 10,
     items_collected = 1, games_played = 1, last_played = Some 22\<rparr>"

definition four_players :: collection where
  "four_players = [doc_bia, doc_caio, doc_duda, doc_edu]"

text \<open>Two session reports: a first, unfinished one and a finished one of a known player.\<close>

definition session_ana :: GameSession where
  "session_ana = \<lparr>GameSession.player_id = ''ana'', level = 4, score = 25,
     GameSession.items_collected = 3, completed = False, time_played = None\<rparr>"

definition session_bia :: GameSession where
  "session_bia = \<lparr>GameSession.player_id = ''bia'', level = 5, score = 25,
     GameSession.items_collected = 3, completed = True, time_played = Some 60\<rparr>"

lemmas four_players_defs =
  four_players_def doc_bia_def doc_caio_def doc_duda_def doc_edu_def
  session_ana_def session_bia_def

section \<open>Properties\<close>

subsection \<open>The operations of the collection\<close>

lemma find_one_Nil [simp]: "find_one flt [] = None"
  by (simp add: find_one_def)

lemma find_one_Cons [simp]:
  "find_one flt (d # ds) = (if flt d then Some d else find_one flt ds)"
  by (simp add: find_one_def)

lemma find_one_Some_D:
  "find_one flt docs = Some d \<Longrightarrow> d \<in> set docs \<and> flt d"
  by (auto simp: find_one_def find_Some_iff)

lemma find_one_None_iff:
  "find_one flt docs = None \<longleftrightarrow> (\<forall>d\<in>set docs. \<not> flt d)"
  by (auto simp: find_one_def find_None_iff)

lemma find_one_list_all:
  "list_all P docs \<Longrightarrow> find_one flt docs = Some d \<Longrightarrow> P d"
  using find_one_Some_D by (fastforce simp: list_all_iff)

lemma count_documents_all [simp]: "count_documents (\<lambda>d. True) docs = length docs"
  by (simp add: count_documents_def)



lemma set_update_one:
  "set (update_one flt new docs) \<subseteq> insert new (set docs)"
  by (induction docs) auto

lemma list_all_update_one:
  "list_all P docs \<Longrightarrow> P new \<Longrightarrow> list_all P (update_one flt new docs)"
  by (induction docs) simp_all

lemma delete_one_none:
  "find_one flt docs = None \<Longrightarrow> delete_one flt docs = (0, docs)"
  by (induction docs) (auto split: if_splits)

lemma delete_one_some:
  "find_one flt docs = Some d \<Longrightarrow> delete_one flt docs = (1, remove1 d docs)"
proof (induction docs)
  case Nil
  then show ?case by simp
next
  case (Cons a docs)
  show ?case
  proof (cases "flt a")
    case True
    with Cons.prems show ?thesis by simp
  next
    case False
    with Cons.prems have rest: "find_one flt docs = Some d" by simp
    then have "flt d" by (simp add: find_one_Some_D)
    with False have "a \<noteq> d" by auto
    with False Cons.IH [OF rest] show ?thesis by simp
  qed
qed

lemma set_delete_one: "set (snd (delete_one flt docs)) \<subseteq> set docs"
  by (induction docs) auto

lemma list_all_delete_one:
  "list_all P docs \<Longrightarrow> list_all P (snd (delete_one flt docs))"
  by (induction docs) simp_all

lemma find_one_remove1_distinct:
  assumes "distinct (map player_id docs)" and "find_one (by_player_id pid) docs = Some d"
  shows "find_one (by_player_id pid) (remove1 d docs) = None"
  using assms
proof (induction docs)
  case Nil
  then show ?case by simp
next
  case (Cons a docs)
  show ?case
  proof (cases "player_id a = pid")
    case True
    with Cons.prems have "d = a" by (simp add: by_player_id_def)
    moreover from Cons.prems(1) have "player_id a \<notin> player_id ` set docs" by simp
    with True have "\<forall>x\<in>set docs. player_id x \<noteq> pid" by (metis imageI)
    ultimately show ?thesis by (simp add: find_one_None_iff by_player_id_def)
  next
    case False
    with Cons.prems have rest: "find_one (by_player_id pid) docs = Some d"
      by (simp add: by_player_id_def)
    then have "player_id d = pid" using find_one_Some_D by (fastforce simp: by_player_id_def)
    with False have "a \<noteq> d" by auto
    moreover from Cons.prems(1) have "distinct (map player_id docs)" by simp
    ultimately show ?thesis
      using False Cons.IH rest by (simp add: by_player_id_def)
  qed
qed

text \<open>The written document of \<open>record_game_session\<close> carries the session's player.\<close>

lemma record_game_session_player_id:
  "player_id (fst (record_game_session now s docs)) = GameSession.player_id s"
  by (simp add: record_game_session_def Let_def split: option.splits)

lemma record_game_session_snd:
  "snd (record_game_session now s docs) =
     update_one (by_player_id (GameSession.player_id s))
       (fst (record_game_session now s docs)) docs"
  by (simp add: record_game_session_def Let_def)

subsection \<open>At most one document for a player\<close>

lemma distinct_update_one:
  "distinct (map player_id docs) \<Longrightarrow>
   distinct (map player_id (update_one (by_player_id (player_id new)) new docs))"
proof (induction docs)
  case Nil
  then show ?case by simp
next
  case (Cons a docs)
  have "player_id ` set (update_one (by_player_id (player_id new)) new docs)
          \<subseteq> insert (player_id new) (player_id ` set docs)"
    using set_update_one [of "by_player_id (player_id new)" new docs] by auto
  with Cons show ?case by (auto simp: by_player_id_def)
qed

lemma distinct_delete_one:
  "distinct (map player_id docs) \<Longrightarrow> distinct (map player_id (snd (delete_one flt docs)))"
proof (induction docs)
  case Nil
  then show ?case by simp
next
  case (Cons a docs)
  with set_delete_one [of flt docs] show ?case by auto
qed

lemma handle_distinct:
  assumes "distinct (map player_id docs)"
  shows "distinct (map player_id (handle r docs))"
proof (cases r)
  case (Save now gd)
  with distinct_update_one [OF assms, of "gd\<lparr>last_played := Some now\<rparr>"] show ?thesis
    by (simp add: save_game_data_def)
next
  case (Session now s)
  with distinct_update_one [OF assms, of "fst (record_game_session now s docs)"]
  show ?thesis by (simp add: record_game_session_snd record_game_session_player_id)
next
  case (Reset pid)
  with distinct_delete_one [OF assms] show ?thesis by (simp add: reset_player_data_def)
qed

text \<open>
  The invariant of the data model: whatever the history of writes, a player identifier
  has at most one document.
\<close>

lemma run_distinct:
  "distinct (map player_id docs) \<Longrightarrow> distinct (map player_id (run reqs docs))"
  unfolding run_def by (induction reqs arbitrary: docs) (simp_all add: handle_distinct)

subsection \<open>Reading and saving a player\<close>

text \<open>
  C4. For a player identifier with no stored document, \<open>get_game_data\<close> returns the
  default record: both levels 1, the three counters 0, no last-played time, and the
  identifier that was asked for.
\<close>

theorem get_game_data_default:
  assumes "find_one (by_player_id pid) docs = None"
  shows "get_game_data pid docs =
    \<lparr>player_id = pid, current_level = 1, max_level = 1, total_score = 0,
     items_collected = 0, games_played = 0, last_played = None\<rparr>"
  using assms by (simp add: get_game_data_def)

theorem get_game_data_default_witness:
  "find_one (by_player_id ''ana'') four_players = None \<and>
   get_game_data ''ana'' four_players =
    \<lparr>player_id = ''ana'', current_level = 1, max_level = 1, total_score = 0,
     items_collected = 0, games_played = 0, last_played = None\<rparr>"
  using get_game_data_default [of "''ana''" four_players]
  by (simp add: four_players_defs by_player_id_def)


subsection \<open>Recording a session\<close>








subsection \<open>The field constraints\<close>

lemma save_game_data_constraints:
  "list_all field_constraints docs \<Longrightarrow> field_constraints gd \<Longrightarrow>
   list_all field_constraints (save_game_data now gd docs)"
  by (simp add: save_game_data_def list_all_update_one field_constraints_def)

lemma record_game_session_constraints:
  assumes "list_all field_constraints docs" and "session_constraints s"
  shows "list_all field_constraints (snd (record_game_session now s docs))"
proof -
  have "field_constraints (fst (record_game_session now s docs))"
  proof (cases "find_one (by_player_id (GameSession.player_id s)) docs")
    case None
    with assms(2) show ?thesis
      by (simp add: record_game_session_def Let_def field_constraints_def
          session_constraints_def)
  next
    case (Some cur)
    with assms(1) have "field_constraints cur" by (rule_tac find_one_list_all)
    with Some assms(2) show ?thesis
      by (auto simp: record_game_session_def Let_def field_constraints_def
          session_constraints_def)
  qed
  with assms(1) show ?thesis
    by (simp add: record_game_session_snd list_all_update_one)
qed

lemma handle_constraints:
  "list_all field_constraints docs \<Longrightarrow> request_constraints r \<Longrightarrow>
   list_all field_constraints (handle r docs)"
  by (cases r)
    (simp_all add: save_game_data_constraints record_game_session_constraints
      reset_player_data_def list_all_delete_one)

text \<open>
  C9, as the code has it. The request models put no bound on their integers, so the
  constraints hold of the collection only as far as the requests keep them: when every
  stored document satisfies the field constraints, every save carries a record that
  satisfies them and every session report has a level of at least 1 and a score and an
  item count of at least 0, then after any sequence of saves, session reports and resets
  every stored document satisfies the field constraints.
\<close>

theorem field_constraints_invariant:
  assumes "list_all field_constraints docs" and "list_all request_constraints reqs"
  shows "list_all field_constraints (run reqs docs)"
  using assms unfolding run_def
  by (induction reqs arbitrary: docs) (simp_all add: handle_constraints)

theorem field_constraints_invariant_witness:
  "list_all field_constraints four_players \<and>
   list_all request_constraints
     [Session 30 session_ana, Save 31 (doc_caio\<lparr>total_score := 0\<rparr>), Reset ''edu'',
      Session 32 session_bia] \<and>
   list_all field_constraints
     (run [Session 30 session_ana, Save 31 (doc_caio\<lparr>total_score := 0\<rparr>), Reset ''edu'',
           Session 32 session_bia] four_players)"
  using field_constraints_invariant [of four_players
      "[Session 30 session_ana, Save 31 (doc_caio\<lparr>total_score := 0\<rparr>), Reset ''edu'',
        Session 32 session_bia]"]
  by (simp add: four_players_defs field_constraints_def session_constraints_def)

text \<open>
  The claim fails without the bounds on the requests: a first session report with a
  score of -5 stores a \<open>total_score\<close> of -5.
\<close>

theorem negative_score_counterexample:
  "run [Session 30 (session_ana\<lparr>score := - 5\<rparr>)] [] =
     [\<lparr>player_id = ''ana'', current_level = 1, max_level = 1, total_score = - 5,
       items_collected = 3, games_played = 1, last_played = Some 30\<rparr>] \<and>
   \<not> list_all field_constraints (run [Session 30 (session_ana\<lparr>score := - 5\<rparr>)] [])"
  by (simp add: run_def record_game_session_def Let_def session_ana_def field_constraints_def)

subsection \<open>Resetting a player\<close>

text \<open>
  C7. \<open>reset_player_data\<close> for a player with no stored document reports 0 deleted
  documents and leaves the collection as it was, so that \<open>get_game_data\<close> still
  returns the default record. For a player with a stored document \<open>d\<close> it reports 1
  and removes \<open>d\<close>; where no player has two documents, the player has none afterwards.
\<close>

theorem reset_player_data_result:
  "(find_one (by_player_id pid) docs = None \<longrightarrow>
      reset_player_data pid docs = (0, docs) \<and>
      get_game_data pid (snd (reset_player_data pid docs)) =
        \<lparr>player_id = pid, current_level = 1, max_level = 1, total_score = 0,
         items_collected = 0, games_played = 0, last_played = None\<rparr>) \<and>
   (\<forall>d. find_one (by_player_id pid) docs = Some d \<longrightarrow>
      reset_player_data pid docs = (1, remove1 d docs) \<and>
      (distinct (map player_id docs) \<longrightarrow>
         find_one (by_player_id pid) (snd (reset_player_data pid docs)) = None))"
  by (auto simp: reset_player_data_def delete_one_none delete_one_some get_game_data_def
      find_one_remove1_distinct)

theorem reset_player_data_result_witness:
  "find_one (by_player_id ''ana'') four_players = None \<and>
   reset_player_data ''ana'' four_players = (0, four_players) \<and>
   find_one (by_player_id ''caio'') four_players = Some doc_caio \<and>
   distinct (map player_id four_players) \<and>
   reset_player_data ''caio'' four_players = (1, [doc_bia, doc_duda, doc_edu]) \<and>
   find_one (by_player_id ''caio'') (snd (reset_player_data ''caio'' four_players)) = None"
  using reset_player_data_result [of "''ana''" four_players]
    reset_player_data_result [of "''caio''" four_players]
  by (simp add: four_players_defs by_player_id_def reset_player_data_def)

subsection \<open>The rank of a player\<close>

lemma count_better_less:
  assumes "find_one flt docs = Some p"
  shows "count_documents (better_stats (max_level p) (total_score p)) docs < length docs"
proof -
  from assms have "p \<in> set docs" by (simp add: find_one_Some_D)
  moreover have "\<not> better_stats (max_level p) (total_score p) p"
    by (simp add: better_stats_def)
  ultimately show ?thesis
    unfolding count_documents_def by (meson length_filter_less)
qed

text \<open>
  C2. For a player with no stored document \<open>get_player_rank\<close> answers that the player
  was not found, with no rank. For a player with the stored document \<open>p\<close> the rank is
  1 plus the number of stored documents whose \<open>max_level\<close> is greater than that of
  \<open>p\<close>, or equal with a greater \<open>total_score\<close>. Two stored players equal in both
  fields therefore get the same rank.
\<close>

theorem player_rank_value:
  "(find_one (by_player_id pid) docs = None \<longrightarrow>
      get_player_rank pid docs = Player_not_found \<and>
      rank_of (get_player_rank pid docs) = None) \<and>
   (\<forall>p. find_one (by_player_id pid) docs = Some p \<longrightarrow>
      rank_of (get_player_rank pid docs) =
        Some (1 + card {i. i < length docs \<and>
                 (max_level p < max_level (docs ! i) \<or>
                  (max_level (docs ! i) = max_level p \<and>
                   total_score p < total_score (docs ! i)))})) \<and>
   (\<forall>p q qid. find_one (by_player_id pid) docs = Some p \<and>
        find_one (by_player_id qid) docs = Some q \<and>
        max_level p = max_level q \<and> total_score p = total_score q \<longrightarrow>
      rank_of (get_player_rank pid docs) = rank_of (get_player_rank qid docs))"
  by (auto simp: get_player_rank_def Let_def count_documents_def length_filter_conv_card
      better_stats_def)

theorem player_rank_value_witness:
  "find_one (by_player_id ''ana'') four_players = None \<and>
   get_player_rank ''ana'' four_players = Player_not_found \<and>
   find_one (by_player_id ''caio'') four_players = Some doc_caio \<and>
   find_one (by_player_id ''duda'') four_players = Some doc_duda \<and>
   max_level doc_caio = max_level doc_duda \<and> total_score doc_caio = total_score doc_duda \<and>
   rank_of (get_player_rank ''caio'' four_players) = Some 2 \<and>
   rank_of (get_player_rank ''duda'' four_players) = Some 2 \<and>
   rank_of (get_player_rank ''bia'' four_players) = Some 4 \<and>
   rank_of (get_player_rank ''edu'' four_players) = Some 1"
  using player_rank_value [of "''ana''" four_players]
    player_rank_value [of "''caio''" four_players]
  by (simp add: four_players_defs by_player_id_def get_player_rank_def Let_def
      count_documents_def better_stats_def)

text \<open>
  C10. For a player with a stored document the rank lies between 1 and the number of
  stored players, which is the \<^verbatim>\<open>total_players\<close> of the answer: the player's own
  document is not counted among the better ones.
\<close>

theorem player_rank_bounds:
  assumes "find_one (by_player_id pid) docs = Some p"
  shows "\<exists>r pd. get_player_rank pid docs = Ranked r (length docs) pd \<and>
           1 \<le> r \<and> r \<le> length docs \<and>
           \<not> better_stats (max_level p) (total_score p) p"
  using assms count_better_less [OF assms]
  by (simp add: get_player_rank_def Let_def better_stats_def)

theorem player_rank_bounds_witness:
  "find_one (by_player_id ''bia'') four_players = Some doc_bia \<and>
   get_player_rank ''bia'' four_players =
     Ranked 4 4 \<lparr>player_data.player_id = ''bia'', player_data.max_level = 3,
       player_data.total_score = 40, player_data.items_collected = 5,
       player_data.games_played = 2\<rparr>"
  using player_rank_bounds [of "''bia''" four_players doc_bia]
  by (simp add: four_players_defs by_player_id_def get_player_rank_def Let_def
      count_documents_def better_stats_def)

subsection \<open>The leaderboard\<close>








subsection \<open>The statistics\<close>


end
